theory Spec2Isabelle
  imports Complex_Main
begin

section \<open>Python values and dictionaries\<close>

text \<open>
  The adapter in \<^verbatim>\<open>patch/exchange/bitget.py\<close> handles untyped Python values: capability
  tables, request parameters, market descriptions and configuration are all dictionaries.
  Floats (the leverage) are only passed through, never computed with, so they are carried
  as reals. A dictionary is an association list in insertion order with one entry per key.
\<close>

datatype PriceType = LAST | MARK | INDEX

datatype pyval =
    PNone
  | PBool bool
  | PInt int
  | PFloat real
  | PStr string
  | PPriceType PriceType
  | PList "pyval list"
  | PDict "(pyval \<times> pyval) list"

type_synonym pydict = "(pyval \<times> pyval) list"

text \<open>Python truthiness, as used by \<^verbatim>\<open>not x\<close>, \<^verbatim>\<open>x and y\<close> and \<^verbatim>\<open>if x\<close>.\<close>

fun truthy :: "pyval \<Rightarrow> bool" where
  "truthy PNone = False"
| "truthy (PBool b) = b"
| "truthy (PInt i) = (i \<noteq> 0)"
| "truthy (PFloat x) = (x \<noteq> 0)"
| "truthy (PStr s) = (s \<noteq> [])"
| "truthy (PPriceType p) = True"
| "truthy (PList xs) = (xs \<noteq> [])"
| "truthy (PDict d) = (d \<noteq> [])"

text \<open>\<^verbatim>\<open>d.get(k)\<close>: the value stored under the key, if any.\<close>

definition dict_get :: "pydict \<Rightarrow> pyval \<Rightarrow> pyval option" where
  "dict_get d k = map_of d k"

text \<open>\<^verbatim>\<open>d.get(k, default)\<close>.\<close>

definition dict_get_default :: "pydict \<Rightarrow> pyval \<Rightarrow> pyval \<Rightarrow> pyval" where
  "dict_get_default d k dflt = (case dict_get d k of None \<Rightarrow> dflt | Some v \<Rightarrow> v)"

text \<open>\<^verbatim>\<open>d[k] = v\<close>: an existing key keeps its place and gets the new value, a new key is
  appended.\<close>

fun dict_setitem :: "pydict \<Rightarrow> pyval \<Rightarrow> pyval \<Rightarrow> pydict" where
  "dict_setitem [] k v = [(k, v)]"
| "dict_setitem ((k', v') # d) k v =
     (if k' = k then (k', v) # d else (k', v') # dict_setitem d k v)"

text \<open>\<^verbatim>\<open>d.update(other)\<close>: every item of \<open>other\<close> is stored into \<open>d\<close>, in order. The
  update is shallow: a nested dictionary is replaced as a whole.\<close>

fun dict_update :: "pydict \<Rightarrow> pydict \<Rightarrow> pydict" where
  "dict_update d [] = d"
| "dict_update d ((k, v) # other) = dict_update (dict_setitem d k v) other"

text \<open>A well-formed dictionary holds each key once.\<close>

definition dict_ok :: "pydict \<Rightarrow> bool" where
  "dict_ok d = distinct (map fst d)"

section \<open>Enumerations of the host framework\<close>

text \<open>
  \<^verbatim>\<open>TradingMode\<close>, \<^verbatim>\<open>MarginMode\<close> and \<^verbatim>\<open>BuySell\<close> are imported by the adapter. The
  adapter tests the trading mode against \<^verbatim>\<open>SPOT\<close> and \<^verbatim>\<open>FUTURES\<close> separately, so a
  third mode is kept apart from both. The margin mode is only tested for truthiness and
  passed on: \<open>None\<close> stands for an unset (falsy) margin mode.
\<close>

datatype TradingMode = SPOT | MARGIN | FUTURES

datatype MarginMode = CROSS | ISOLATED

datatype BuySell = Buy | Sell

section \<open>The adapter object\<close>

record bitget =
  trading_mode :: TradingMode
  margin_mode :: "MarginMode option"
  config :: pydict

section \<open>Pure hooks\<close>

text \<open>
  The base class \<^verbatim>\<open>Exchange\<close> is an external collaborator. What \<^verbatim>\<open>super()\<close> returns
  for the object at hand is a parameter of each hook.
\<close>

text \<open>
  \<^verbatim>\<open>_ccxt_config\<close> (lines 56-64); \<open>super_ccxt_config\<close> is the value of
  \<^verbatim>\<open>super()._ccxt_config\<close>.
\<close>

definition ccxt_config :: "pydict \<Rightarrow> bitget \<Rightarrow> pydict" where
  "ccxt_config super_ccxt_config self =
     (let config = [];
          config =
            (if trading_mode self = SPOT then
               dict_update config [(PStr ''options'', PDict [(PStr ''defaultType'', PStr ''spot'')])]
             else if trading_mode self = FUTURES then
               dict_update config [(PStr ''options'', PDict [(PStr ''defaultType'', PStr ''swap'')])]
             else config)
      in dict_update config super_ccxt_config)"

text \<open>
  \<^verbatim>\<open>market_is_future\<close> (lines 81-84). Python's \<^verbatim>\<open>main and x\<close> is \<open>main\<close> when
  \<open>main\<close> is falsy and \<open>x\<close> otherwise, so the result is whatever the market stores under
  \<^verbatim>\<open>"swap"\<close> when the base predicate holds.
\<close>

definition market_is_future :: "(pydict \<Rightarrow> bool) \<Rightarrow> pydict \<Rightarrow> pyval" where
  "market_is_future super_market_is_future market =
     (let main = super_market_is_future market
      in if main then dict_get_default market (PStr ''swap'') (PBool False) else PBool main)"

text \<open>\<^verbatim>\<open>_get_params\<close> (lines 92-109).\<close>

definition get_params ::
  "(BuySell \<Rightarrow> string \<Rightarrow> real \<Rightarrow> bool \<Rightarrow> string \<Rightarrow> pydict) \<Rightarrow> bitget \<Rightarrow>
   BuySell \<Rightarrow> string \<Rightarrow> real \<Rightarrow> bool \<Rightarrow> string \<Rightarrow> pydict" where
  "get_params super_get_params self side ordertype leverage reduceOnly time_in_force =
     (let params = super_get_params side ordertype leverage reduceOnly time_in_force
      in if trading_mode self = FUTURES \<and> margin_mode self \<noteq> None
         then dict_setitem params (PStr ''positionIdx'') (PInt 1)
         else params)"

text \<open>\<^verbatim>\<open>_order_needs_price\<close> (lines 120-122).\<close>

definition order_needs_price :: "BuySell \<Rightarrow> string \<Rightarrow> bool" where
  "order_needs_price side ordertype = (ordertype \<noteq> ''market'')"

section \<open>Exceptions\<close>

text \<open>
  The exception classes of the multi-exchange client that the adapter names, with the
  subclass relation among them (every client error is a \<^verbatim>\<open>BaseError\<close>; a
  \<^verbatim>\<open>DDoSProtection\<close> is a network error and so an \<^verbatim>\<open>OperationFailed\<close>). A raised
  client error is described by the most specific of these classes it belongs to, the name
  of its own class and its message.
\<close>

datatype ccxt_class = DDoSProtection | OperationFailed | ExchangeError | BaseError

fun isinstance_ccxt :: "ccxt_class \<Rightarrow> ccxt_class \<Rightarrow> bool" where
  "isinstance_ccxt c BaseError = True"
| "isinstance_ccxt DDoSProtection OperationFailed = True"
| "isinstance_ccxt c c' = (c = c')"

text \<open>
  Everything that can be raised: a client error, Python's \<^verbatim>\<open>KeyError\<close>, and the
  framework's own errors \<^verbatim>\<open>DDosProtection(e)\<close>, \<^verbatim>\<open>TemporaryError(msg)\<close> and
  \<^verbatim>\<open>OperationalException(e)\<close>.
\<close>

datatype pyexn =
    CcxtError ccxt_class string string
  | KeyError pyval
  | UnsupportedFeature pyval
  | DDosProtection pyexn
  | TemporaryError string
  | OperationalException pyexn

section \<open>Initialisation hook\<close>

text \<open>
  \<^verbatim>\<open>additional_exchange_init\<close> (lines 67-79), without its decorator. The body of the
  \<^verbatim>\<open>try\<close> reads \<^verbatim>\<open>self._config["dry_run"]\<close>, which raises \<^verbatim>\<open>KeyError\<close> on a
  configuration without that key, and then does nothing in either branch.
\<close>

definition init_try_body :: "bitget \<Rightarrow> pyexn + unit" where
  "init_try_body self =
     (case dict_get (config self) (PStr ''dry_run'') of
        None \<Rightarrow> Inl (KeyError (PStr ''dry_run''))
      | Some dry_run \<Rightarrow> (if \<not> truthy dry_run then Inr () else Inr ()))"

text \<open>
  The three \<^verbatim>\<open>except\<close> clauses, tried in order: \<open>Some e'\<close> when a clause matches and
  raises \<open>e'\<close>, \<open>None\<close> when no clause matches.
\<close>

fun init_except :: "pyexn \<Rightarrow> pyexn option" where
  "init_except (CcxtError c name msg) =
     (if isinstance_ccxt c DDoSProtection then
        Some (DDosProtection (CcxtError c name msg))
      else if isinstance_ccxt c OperationFailed \<or> isinstance_ccxt c ExchangeError then
        Some (TemporaryError
          (''Error in additional_exchange_init due to '' @ name @ ''. Message: '' @ msg))
      else if isinstance_ccxt c BaseError then
        Some (OperationalException (CcxtError c name msg))
      else None)"
| "init_except e = None"

text \<open>The \<^verbatim>\<open>try\<close> statement around a body with the given outcome: an exception that no
  clause matches propagates as it is.\<close>

definition init_try :: "pyexn + unit \<Rightarrow> pyexn + unit" where
  "init_try body =
     (case body of
        Inr u \<Rightarrow> Inr u
      | Inl e \<Rightarrow> (case init_except e of Some e' \<Rightarrow> Inl e' | None \<Rightarrow> Inl e))"

definition additional_exchange_init :: "bitget \<Rightarrow> pyexn + unit" where
  "additional_exchange_init self = init_try (init_try_body self)"

section \<open>Outbound calls\<close>

text \<open>
  The effectful collaborators: the raw client \<^verbatim>\<open>self._api\<close> and the methods inherited
  from the base class. Each acts on the outside world \<open>'w\<close> and returns or raises. They
  are parameters of the model; the model itself keeps the list of calls it has issued,
  with their arguments, next to the world.
\<close>

datatype call =
    Log_info string
  | Log_warning string
  | Api_fetch_positions "string list option"
  | Super_fetch_positions "string option"
  | Set_margin_mode string "MarginMode option" bool pydict
  | Set_leverage real string bool

record 'w host =
  api_fetch_positions :: "string list option \<Rightarrow> 'w \<Rightarrow> (pyexn + pyval) \<times> 'w"
  super_fetch_positions :: "string option \<Rightarrow> 'w \<Rightarrow> (pyexn + pyval) \<times> 'w"
  set_margin_mode :: "string \<Rightarrow> MarginMode option \<Rightarrow> bool \<Rightarrow> pydict \<Rightarrow> 'w \<Rightarrow> (pyexn + unit) \<times> 'w"
  set_leverage :: "real \<Rightarrow> string \<Rightarrow> bool \<Rightarrow> 'w \<Rightarrow> (pyexn + unit) \<times> 'w"

record 'w state =
  calls :: "call list"
  world :: 'w

definition issue :: "call \<Rightarrow> ('w \<Rightarrow> 'r \<times> 'w) \<Rightarrow> 'w state \<Rightarrow> 'r \<times> 'w state" where
  "issue c f s =
     (case f (world s) of (r, w') \<Rightarrow> (r, \<lparr>calls = calls s @ [c], world = w'\<rparr>))"

definition log_info :: "string \<Rightarrow> 'w state \<Rightarrow> 'w state" where
  "log_info msg s = s\<lparr>calls := calls s @ [Log_info msg]\<rparr>"

definition log_warning :: "string \<Rightarrow> 'w state \<Rightarrow> 'w state" where
  "log_warning msg s = s\<lparr>calls := calls s @ [Log_warning msg]\<rparr>"

text \<open>
  \<^verbatim>\<open>_lev_prep\<close> (lines 86-90). Both calls are made with \<^verbatim>\<open>accept_fail=True\<close>; the
  function's own \<open>accept_fail\<close> and \<open>side\<close> are not used. Nothing is caught, so an
  exception of the first call ends the function before the second.
\<close>

definition lev_prep ::
  "'w host \<Rightarrow> bitget \<Rightarrow> string \<Rightarrow> real \<Rightarrow> BuySell \<Rightarrow> bool \<Rightarrow> 'w state \<Rightarrow> (pyexn + unit) \<times> 'w state" where
  "lev_prep h self pair leverage side accept_fail s =
     (if trading_mode self \<noteq> SPOT then
        (let params = [(PStr ''leverage'', PFloat leverage)] in
         case issue (Set_margin_mode pair (margin_mode self) True params)
                (set_margin_mode h pair (margin_mode self) True params) s of
           (Inl e, s1) \<Rightarrow> (Inl e, s1)
         | (Inr _, s1) \<Rightarrow>
             issue (Set_leverage leverage pair True) (set_leverage h leverage pair True) s1)
      else (Inr (), s))"

text \<open>How an f-string renders the \<open>pair\<close> argument.\<close>

definition format_pair :: "string option \<Rightarrow> string" where
  "format_pair pair = (case pair of None \<Rightarrow> ''None'' | Some p \<Rightarrow> p)"

text \<open>\<^verbatim>\<open>not pair\<close> for \<^verbatim>\<open>pair: str | None\<close>.\<close>

definition not_pair :: "string option \<Rightarrow> bool" where
  "not_pair pair = (case pair of None \<Rightarrow> True | Some p \<Rightarrow> p = [])"

text \<open>\<^verbatim>\<open>fetch_positions\<close> (lines 124-130).\<close>

definition fetch_positions ::
  "'w host \<Rightarrow> string option \<Rightarrow> 'w state \<Rightarrow> (pyexn + pyval) \<times> 'w state" where
  "fetch_positions h pair s =
     (let s1 = log_info (''[Bitget] fetch_positions called with pair: '' @ format_pair pair) s
      in if not_pair pair then
           (let s2 = log_warning
              ''[Bitget] fetch_positions: pair is None or empty, calling self._api.fetch_positions() without symbols.'' s1
            in issue (Api_fetch_positions None) (api_fetch_positions h None) s2)
         else issue (Super_fetch_positions pair) (super_fetch_positions h pair) s1)"

section \<open>Capability tables\<close>

text \<open>The class attributes \<^verbatim>\<open>_ft_has\<close> and \<^verbatim>\<open>_ft_has_futures\<close> (lines 24-49).\<close>

definition ft_has :: pydict where
  "ft_has =
     [(PStr ''ohlcv_has_history'', PBool True),
      (PStr ''order_time_in_force'', PList [PStr ''GTC'', PStr ''FOK'', PStr ''IOC'']),
      (PStr ''ws_enabled'', PBool True),
      (PStr ''trades_has_history'', PBool False),
      (PStr ''fetch_orders_limit_minutes'', PInt (7 * 1440))]"

definition ft_has_futures :: pydict where
  "ft_has_futures =
     [(PStr ''ohlcv_has_history'', PBool True),
      (PStr ''mark_ohlcv_timeframe'', PStr ''4h''),
      (PStr ''funding_fee_timeframe'', PStr ''8h''),
      (PStr ''funding_fee_candle_limit'', PInt 200),
      (PStr ''stoploss_on_exchange'', PBool True),
      (PStr ''stoploss_order_types'',
         PDict [(PStr ''limit'', PStr ''limit''), (PStr ''market'', PStr ''market'')]),
      (PStr ''stoploss_blocks_assets'', PBool False),
      (PStr ''stop_price_prop'', PStr ''stopPx''),
      (PStr ''stop_price_type_field'', PStr ''triggerType''),
      (PStr ''stop_price_type_value_mapping'',
         PDict [(PPriceType LAST, PStr ''latest_price''),
                (PPriceType MARK, PStr ''mark_price''),
                (PPriceType INDEX, PStr ''index_price'')]),
      (PStr ''exchange_has_overrides'', PDict [(PStr ''fetchOrder'', PBool True)])]"

text \<open>
  Modelled from the spec: the merge of the two tables and the lookup in the merged table
  are done by the base class, which is not among the sources. Spec 4.1: "Merge rule:
  trading-mode-specific table wins over base table on key collision", and
  "\<^verbatim>\<open>get(feature) -> value\<close>, fails with \<^verbatim>\<open>UnsupportedFeature\<close> when absent".
  The futures table is the only mode-specific table the adapter declares.
\<close>

definition merged_ft_has :: "TradingMode \<Rightarrow> pydict \<Rightarrow> pydict \<Rightarrow> pydict" where
  "merged_ft_has mode base futures =
     (if mode = FUTURES then dict_update base futures else base)"

definition capability_get :: "pydict \<Rightarrow> pyval \<Rightarrow> pyexn + pyval" where
  "capability_get table feature =
     (case dict_get table feature of
        None \<Rightarrow> Inl (UnsupportedFeature feature)
      | Some v \<Rightarrow> Inr v)"

section \<open>Retry wrapper\<close>

text \<open>
  Modelled from the spec: the \<^verbatim>\<open>retrier\<close> decorator of
  \<^verbatim>\<open>additional_exchange_init\<close> is imported from the host framework and is not among the
  sources. Spec 4.4: a state machine over an outbound call,
  \<^verbatim>\<open>Attempt -> {Success, RetryableFailure, FatalFailure}\<close>; a retryable failure
  (rate limiting, transient errors) is retried up to a configured attempt count, and
  exceeding it escalates to a fatal failure carrying the typed error. Spec 7: anything
  unclassified is permanent. The waiting between attempts is not modelled.
\<close>

datatype 'a outcome = Success 'a | RetryableFailure pyexn | FatalFailure pyexn

fun retryable :: "pyexn \<Rightarrow> bool" where
  "retryable (DDosProtection e) = True"
| "retryable (TemporaryError msg) = True"
| "retryable e = False"

definition classify :: "pyexn + 'a \<Rightarrow> 'a outcome" where
  "classify r =
     (case r of
        Inr v \<Rightarrow> Success v
      | Inl e \<Rightarrow> (if retryable e then RetryableFailure e else FatalFailure e))"

text \<open>\<open>attempt_loop n f made w\<close>: one attempt now and at most \<open>n\<close> more; \<open>made\<close> counts
  the attempts so far. The result is the final outcome, the number of attempts and the
  world.\<close>

fun attempt_loop ::
  "nat \<Rightarrow> ('w \<Rightarrow> (pyexn + 'a) \<times> 'w) \<Rightarrow> nat \<Rightarrow> 'w \<Rightarrow> 'a outcome \<times> nat \<times> 'w" where
  "attempt_loop 0 f made w =
     (case f w of (r, w') \<Rightarrow>
        (case classify r of
           RetryableFailure e \<Rightarrow> (FatalFailure e, Suc made, w')
         | out \<Rightarrow> (out, Suc made, w')))"
| "attempt_loop (Suc n) f made w =
     (case f w of (r, w') \<Rightarrow>
        (case classify r of
           RetryableFailure e \<Rightarrow> attempt_loop n f (Suc made) w'
         | out \<Rightarrow> (out, Suc made, w')))"

definition retrier ::
  "nat \<Rightarrow> ('w \<Rightarrow> (pyexn + 'a) \<times> 'w) \<Rightarrow> 'w \<Rightarrow> 'a outcome \<times> nat \<times> 'w" where
  "retrier max_attempts f w = attempt_loop (max_attempts - 1) f 0 w"

section \<open>Example hosts\<close>

text \<open>
  A host whose exchange rejects every margin-mode and leverage request; the base class
  raises \<^verbatim>\<open>TemporaryError\<close> for the rejection unless \<open>accept_fail\<close> is set. The world
  counts the calls that reached the host.
\<close>

definition rejecting_host :: "nat host" where
  "rejecting_host =
     \<lparr>api_fetch_positions = (\<lambda>symbols w. (Inr (PList []), Suc w)),
      super_fetch_positions = (\<lambda>pair w. (Inr (PList []), Suc w)),
      set_margin_mode = (\<lambda>pair mm accept_fail params w.
        (if accept_fail then Inr ()
         else Inl (TemporaryError ''Could not set margin mode due to BadRequest''), Suc w)),
      set_leverage = (\<lambda>leverage pair accept_fail w.
        (if accept_fail then Inr ()
         else Inl (TemporaryError ''Could not set leverage due to BadRequest''), Suc w))\<rparr>"

text \<open>A host that is rate limited: every call raises \<^verbatim>\<open>DDosProtection\<close>, with or without
  \<open>accept_fail\<close>.\<close>

definition too_many_requests :: pyexn where
  "too_many_requests =
     DDosProtection (CcxtError DDoSProtection ''DDoSProtection'' ''429 Too Many Requests'')"

definition limited_host :: "nat host" where
  "limited_host =
     \<lparr>api_fetch_positions = (\<lambda>symbols w. (Inl too_many_requests, Suc w)),
      super_fetch_positions = (\<lambda>pair w. (Inl too_many_requests, Suc w)),
      set_margin_mode = (\<lambda>pair mm accept_fail params w. (Inl too_many_requests, Suc w)),
      set_leverage = (\<lambda>leverage pair accept_fail w. (Inl too_many_requests, Suc w))\<rparr>"

text \<open>An outbound call that is rate limited on every attempt.\<close>

definition rate_limited :: "nat \<Rightarrow> (pyexn + unit) \<times> nat" where
  "rate_limited w = (Inl too_many_requests, Suc w)"

section \<open>Dictionary lemmas\<close>

lemma map_of_dict_setitem: "map_of (dict_setitem d k v) = (map_of d)(k \<mapsto> v)"
  by (induction d k v rule: dict_setitem.induct) (auto simp: fun_eq_iff)

lemma dict_get_setitem: "dict_get (dict_setitem d k v) k' = (if k' = k then Some v else dict_get d k')"
  by (simp add: dict_get_def map_of_dict_setitem)

lemma map_of_dict_update:
  "distinct (map fst other) \<Longrightarrow> map_of (dict_update d other) = map_of d ++ map_of other"
proof (induction other arbitrary: d)
  case Nil
  show ?case by simp
next
  case (Cons kv other)
  obtain k v where kv: "kv = (k, v)" by (cases kv)
  from Cons.prems kv have fresh: "map_of other k = None" and dist: "distinct (map fst other)"
    by (auto simp: map_of_eq_None_iff)
  have "map_of (dict_update d (kv # other)) = map_of (dict_update (dict_setitem d k v) other)"
    using kv by simp
  also have "\<dots> = (map_of d)(k \<mapsto> v) ++ map_of other"
    unfolding Cons.IH [OF dist] map_of_dict_setitem ..
  also have "\<dots> = map_of d ++ map_of (kv # other)"
    using fresh kv by (auto simp: fun_eq_iff map_add_def split: option.splits)
  finally show ?case .
qed

lemma dict_get_update:
  "dict_ok other \<Longrightarrow>
   dict_get (dict_update d other) k =
     (case dict_get other k of Some v \<Rightarrow> Some v | None \<Rightarrow> dict_get d k)"
  by (simp add: dict_get_def dict_ok_def map_of_dict_update map_add_def split: option.splits)

section \<open>Order parameters\<close>

text \<open>
  Claim C4. \<^verbatim>\<open>_order_needs_price\<close> answers \<open>False\<close> exactly for the order type
  \<^verbatim>\<open>"market"\<close> and \<open>True\<close> for every other order type, whatever the side: no price is
  required for a market order.
\<close>

theorem order_needs_price_market:
  "order_needs_price side ordertype = (if ordertype = ''market'' then False else True)"
  by (simp add: order_needs_price_def)

text \<open>
  Claim C3. In futures mode with a margin mode set, the parameters returned by
  \<^verbatim>\<open>_get_params\<close> hold \<^verbatim>\<open>positionIdx\<close> = 1, for every side, order type, leverage,
  reduce-only flag and time in force and whatever the base class produced (every other key
  is as the base class left it); in spot mode the parameters of the base class are
  returned unchanged, so the adapter adds no \<^verbatim>\<open>positionIdx\<close>.
\<close>

theorem get_params_positionIdx:
  "(trading_mode self = FUTURES \<and> margin_mode self \<noteq> None \<longrightarrow>
      dict_get (get_params base self side ordertype leverage reduceOnly tif) (PStr ''positionIdx'')
        = Some (PInt 1)
      \<and> (\<forall>k. k \<noteq> PStr ''positionIdx'' \<longrightarrow>
            dict_get (get_params base self side ordertype leverage reduceOnly tif) k
              = dict_get (base side ordertype leverage reduceOnly tif) k))
   \<and> (trading_mode self = SPOT \<longrightarrow>
        get_params base self side ordertype leverage reduceOnly tif
          = base side ordertype leverage reduceOnly tif)"
  by (simp add: get_params_def dict_get_setitem)

theorem get_params_positionIdx_witness:
  "dict_get
     (get_params
        (\<lambda>side ordertype leverage reduceOnly tif.
           [(PStr ''timeInForce'', PStr tif), (PStr ''positionIdx'', PInt 0)])
        \<lparr>trading_mode = FUTURES, margin_mode = Some ISOLATED, config = []\<rparr>
        Sell ''limit'' 3 True ''GTC'')
     (PStr ''positionIdx'') = Some (PInt 1)
   \<and> get_params
        (\<lambda>side ordertype leverage reduceOnly tif. [(PStr ''timeInForce'', PStr tif)])
        \<lparr>trading_mode = SPOT, margin_mode = None, config = []\<rparr>
        Buy ''market'' 1 False ''IOC'' = [(PStr ''timeInForce'', PStr ''IOC'')]"
  using
    get_params_positionIdx
      [of "\<lparr>trading_mode = FUTURES, margin_mode = Some ISOLATED, config = []\<rparr>"
          "\<lambda>side ordertype leverage reduceOnly tif.
             [(PStr ''timeInForce'', PStr tif), (PStr ''positionIdx'', PInt 0)]"
          Sell "''limit''" 3 True "''GTC''"]
    get_params_positionIdx
      [of "\<lparr>trading_mode = SPOT, margin_mode = None, config = []\<rparr>"
          "\<lambda>side ordertype leverage reduceOnly tif. [(PStr ''timeInForce'', PStr tif)]"
          Buy "''market''" 1 False "''IOC''"]
  by simp

section \<open>Market classification\<close>

text \<open>
  Claim C9. \<^verbatim>\<open>market_is_future\<close> returns \<open>True\<close> only if the predicate of the base
  class holds for the market and the market stores \<open>True\<close> under \<^verbatim>\<open>"swap"\<close>; its result
  is truthy exactly when the base predicate holds and the stored value is truthy; and for
  a market without the key \<^verbatim>\<open>"swap"\<close> the result is \<open>False\<close>.
\<close>

theorem market_is_future_requires_swap:
  "(market_is_future base market = PBool True \<longrightarrow>
      base market \<and> dict_get market (PStr ''swap'') = Some (PBool True))
   \<and> (truthy (market_is_future base market) =
        (base market \<and> (\<exists>v. dict_get market (PStr ''swap'') = Some v \<and> truthy v)))
   \<and> (dict_get market (PStr ''swap'') = None \<longrightarrow> market_is_future base market = PBool False)"
  by (auto simp: market_is_future_def dict_get_default_def Let_def split: option.splits if_splits)

theorem market_is_future_requires_swap_witness:
  "market_is_future (\<lambda>m. True) [(PStr ''symbol'', PStr ''BTC/USDT:USDT''), (PStr ''swap'', PBool True)]
     = PBool True
   \<and> market_is_future (\<lambda>m. True) [(PStr ''symbol'', PStr ''BTC/USDT:USDT'')] = PBool False"
  using
    market_is_future_requires_swap
      [of "\<lambda>m. True" "[(PStr ''symbol'', PStr ''BTC/USDT:USDT''), (PStr ''swap'', PBool True)]"]
    market_is_future_requires_swap
      [of "\<lambda>m. True" "[(PStr ''symbol'', PStr ''BTC/USDT:USDT'')]"]
  by (simp add: market_is_future_def dict_get_default_def dict_get_def)

section \<open>Client configuration\<close>

text \<open>
  Claim C10. The configuration returned by \<^verbatim>\<open>_ccxt_config\<close> holds, under every key of
  the base class's configuration, the base class's value; the key \<^verbatim>\<open>"options"\<close> holds
  \<^verbatim>\<open>{"defaultType": "spot"}\<close> in spot mode and \<^verbatim>\<open>{"defaultType": "swap"}\<close> in futures
  mode unless the base class has that key too; and there is no other key.
\<close>

theorem ccxt_config_merge:
  assumes "dict_ok base"
  shows "dict_get (ccxt_config base self) k =
     (case dict_get base k of
        Some v \<Rightarrow> Some v
      | None \<Rightarrow>
          (if k = PStr ''options'' \<and> trading_mode self = SPOT then
             Some (PDict [(PStr ''defaultType'', PStr ''spot'')])
           else if k = PStr ''options'' \<and> trading_mode self = FUTURES then
             Some (PDict [(PStr ''defaultType'', PStr ''swap'')])
           else None))"
  using assms
  by (simp add: ccxt_config_def dict_get_update split: option.splits)
    (simp add: dict_get_def)

theorem ccxt_config_merge_witness:
  "dict_ok [(PStr ''enableRateLimit'', PBool True)]
   \<and> dict_get
        (ccxt_config [(PStr ''enableRateLimit'', PBool True)]
           \<lparr>trading_mode = FUTURES, margin_mode = Some CROSS, config = []\<rparr>)
        (PStr ''options'') = Some (PDict [(PStr ''defaultType'', PStr ''swap'')])
   \<and> dict_ok [(PStr ''options'', PDict [(PStr ''adjustForTimeDifference'', PBool True)])]
   \<and> dict_get
        (ccxt_config [(PStr ''options'', PDict [(PStr ''adjustForTimeDifference'', PBool True)])]
           \<lparr>trading_mode = SPOT, margin_mode = None, config = []\<rparr>)
        (PStr ''options'') = Some (PDict [(PStr ''adjustForTimeDifference'', PBool True)])"
proof -
  have ok1: "dict_ok [(PStr ''enableRateLimit'', PBool True)]"
    by (simp add: dict_ok_def)
  have ok2: "dict_ok [(PStr ''options'', PDict [(PStr ''adjustForTimeDifference'', PBool True)])]"
    by (simp add: dict_ok_def)
  show ?thesis
    using ok1 ok2
      ccxt_config_merge [OF ok1,
        of "\<lparr>trading_mode = FUTURES, margin_mode = Some CROSS, config = []\<rparr>" "PStr ''options''"]
      ccxt_config_merge [OF ok2,
        of "\<lparr>trading_mode = SPOT, margin_mode = None, config = []\<rparr>" "PStr ''options''"]
    by (simp add: dict_get_def)
qed

section \<open>Position fetching\<close>

lemma issue_eq:
  "issue c f s = (fst (f (world s)), \<lparr>calls = calls s @ [c], world = snd (f (world s))\<rparr>)"
  by (simp add: issue_def split: prod.splits)

text \<open>
  Claim C1. Called with no pair (\<open>None\<close> or the empty string), \<^verbatim>\<open>fetch_positions\<close> logs
  twice and issues exactly one outbound call, the raw client's \<^verbatim>\<open>fetch_positions\<close>
  without a symbol filter, whose outcome it returns. Called with a pair, it logs once and
  issues exactly one outbound call, the base class's \<^verbatim>\<open>fetch_positions\<close> with that
  pair, whose outcome it returns.
\<close>

theorem fetch_positions_dispatch:
  "(pair = None \<or> pair = Some [] \<longrightarrow>
      fetch_positions h pair s =
        (fst (api_fetch_positions h None (world s)),
         \<lparr>calls = calls s @
            [Log_info (''[Bitget] fetch_positions called with pair: '' @ format_pair pair),
             Log_warning ''[Bitget] fetch_positions: pair is None or empty, calling self._api.fetch_positions() without symbols.'',
             Api_fetch_positions None],
          world = snd (api_fetch_positions h None (world s))\<rparr>))
   \<and> (pair \<noteq> None \<and> pair \<noteq> Some [] \<longrightarrow>
      fetch_positions h pair s =
        (fst (super_fetch_positions h pair (world s)),
         \<lparr>calls = calls s @
            [Log_info (''[Bitget] fetch_positions called with pair: '' @ format_pair pair),
             Super_fetch_positions pair],
          world = snd (super_fetch_positions h pair (world s))\<rparr>))"
  by (auto simp: fetch_positions_def not_pair_def issue_eq log_info_def log_warning_def Let_def
      split: option.splits)

theorem fetch_positions_dispatch_witness:
  "fetch_positions rejecting_host None \<lparr>calls = [], world = 0\<rparr> =
     (Inr (PList []),
      \<lparr>calls =
         [Log_info ''[Bitget] fetch_positions called with pair: None'',
          Log_warning ''[Bitget] fetch_positions: pair is None or empty, calling self._api.fetch_positions() without symbols.'',
          Api_fetch_positions None],
       world = 1\<rparr>)
   \<and> fetch_positions rejecting_host (Some ''BTC/USDT:USDT'') \<lparr>calls = [], world = 0\<rparr> =
     (Inr (PList []),
      \<lparr>calls =
         [Log_info ''[Bitget] fetch_positions called with pair: BTC/USDT:USDT'',
          Super_fetch_positions (Some ''BTC/USDT:USDT'')],
       world = 1\<rparr>)"
  using
    fetch_positions_dispatch [of None rejecting_host "\<lparr>calls = [], world = 0\<rparr>"]
    fetch_positions_dispatch
      [of "Some ''BTC/USDT:USDT''" rejecting_host "\<lparr>calls = [], world = 0\<rparr>"]
  by (simp add: rejecting_host_def format_pair_def)

section \<open>Leverage preparation\<close>

text \<open>
  Claim C7, as stated, fails: outside spot mode a call of \<^verbatim>\<open>_lev_prep\<close> need not
  perform both calls. On a rate-limited host the first call raises, the exception leaves
  \<^verbatim>\<open>_lev_prep\<close>, and \<^verbatim>\<open>set_margin_mode\<close> is the only call that was made.
\<close>

theorem lev_prep_sequence_counterexample:
  "trading_mode \<lparr>trading_mode = FUTURES, margin_mode = Some ISOLATED, config = []\<rparr> \<noteq> SPOT
   \<and> lev_prep limited_host \<lparr>trading_mode = FUTURES, margin_mode = Some ISOLATED, config = []\<rparr>
        ''BTC/USDT:USDT'' 3 Buy False \<lparr>calls = [], world = 0\<rparr>
     = (Inl too_many_requests,
        \<lparr>calls =
           [Set_margin_mode ''BTC/USDT:USDT'' (Some ISOLATED) True [(PStr ''leverage'', PFloat 3)]],
         world = 1\<rparr>)"
  by (simp add: limited_host_def lev_prep_def issue_def)

text \<open>
  Claim C7, amended. In spot mode \<^verbatim>\<open>_lev_prep\<close> issues no call and returns with the
  whole state unchanged. In every other mode it issues \<^verbatim>\<open>set_margin_mode\<close> first;
  if that call returns, it then issues the set-leverage call and nothing else, and the
  outcome of that call is its own; if \<^verbatim>\<open>set_margin_mode\<close> raises, the exception
  propagates and no further call is made.
\<close>

theorem lev_prep_sequence:
  "(trading_mode self = SPOT \<longrightarrow> lev_prep h self pair leverage side accept_fail s = (Inr (), s))
   \<and> (trading_mode self \<noteq> SPOT \<longrightarrow>
       (case set_margin_mode h pair (margin_mode self) True
               [(PStr ''leverage'', PFloat leverage)] (world s) of
          (Inr u, w1) \<Rightarrow>
             lev_prep h self pair leverage side accept_fail s =
               (fst (set_leverage h leverage pair True w1),
                \<lparr>calls = calls s @
                   [Set_margin_mode pair (margin_mode self) True
                      [(PStr ''leverage'', PFloat leverage)],
                    Set_leverage leverage pair True],
                 world = snd (set_leverage h leverage pair True w1)\<rparr>)
        | (Inl e, w1) \<Rightarrow>
             lev_prep h self pair leverage side accept_fail s =
               (Inl e,
                \<lparr>calls = calls s @
                   [Set_margin_mode pair (margin_mode self) True
                      [(PStr ''leverage'', PFloat leverage)]],
                 world = w1\<rparr>)))"
  by (auto simp: lev_prep_def issue_eq Let_def split: prod.splits sum.splits)

theorem lev_prep_sequence_witness:
  "lev_prep rejecting_host \<lparr>trading_mode = SPOT, margin_mode = None, config = []\<rparr>
      ''BTC/USDT'' 3 Buy False \<lparr>calls = [], world = 0\<rparr>
     = (Inr (), \<lparr>calls = [], world = 0\<rparr>)
   \<and> lev_prep rejecting_host \<lparr>trading_mode = FUTURES, margin_mode = Some ISOLATED, config = []\<rparr>
      ''BTC/USDT:USDT'' 3 Buy False \<lparr>calls = [], world = 0\<rparr>
     = (Inr (),
        \<lparr>calls =
           [Set_margin_mode ''BTC/USDT:USDT'' (Some ISOLATED) True [(PStr ''leverage'', PFloat 3)],
            Set_leverage 3 ''BTC/USDT:USDT'' True],
         world = 2\<rparr>)
   \<and> lev_prep limited_host \<lparr>trading_mode = FUTURES, margin_mode = Some ISOLATED, config = []\<rparr>
      ''BTC/USDT:USDT'' 3 Buy False \<lparr>calls = [], world = 0\<rparr>
     = (Inl too_many_requests,
        \<lparr>calls =
           [Set_margin_mode ''BTC/USDT:USDT'' (Some ISOLATED) True [(PStr ''leverage'', PFloat 3)]],
         world = 1\<rparr>)"
  using
    lev_prep_sequence [of "\<lparr>trading_mode = SPOT, margin_mode = None, config = []\<rparr>"
      rejecting_host "''BTC/USDT''" 3 Buy False "\<lparr>calls = [], world = 0\<rparr>"]
    lev_prep_sequence [of "\<lparr>trading_mode = FUTURES, margin_mode = Some ISOLATED, config = []\<rparr>"
      rejecting_host "''BTC/USDT:USDT''" 3 Buy False "\<lparr>calls = [], world = 0\<rparr>"]
    lev_prep_sequence [of "\<lparr>trading_mode = FUTURES, margin_mode = Some ISOLATED, config = []\<rparr>"
      limited_host "''BTC/USDT:USDT''" 3 Buy False "\<lparr>calls = [], world = 0\<rparr>"]
  by (simp add: rejecting_host_def limited_host_def)

text \<open>
  Claim C2, as stated, fails: \<^verbatim>\<open>_lev_prep\<close> called with \<^verbatim>\<open>accept_fail=False\<close> on a
  host that surfaces a rejected margin-mode request unless \<open>accept_fail\<close> is set does not
  raise, because the call is made with \<^verbatim>\<open>accept_fail=True\<close> all the same.
\<close>

theorem lev_prep_accept_fail_counterexample:
  "fst (set_margin_mode rejecting_host ''BTC/USDT:USDT'' (Some ISOLATED) False
          [(PStr ''leverage'', PFloat 3)] 0)
     = Inl (TemporaryError ''Could not set margin mode due to BadRequest'')
   \<and> fst (lev_prep rejecting_host
            \<lparr>trading_mode = FUTURES, margin_mode = Some ISOLATED, config = []\<rparr>
            ''BTC/USDT:USDT'' 3 Buy False \<lparr>calls = [], world = 0\<rparr>)
     = Inr ()"
  by (simp add: rejecting_host_def lev_prep_def issue_def)

text \<open>
  Claim C2, amended. Outside spot mode \<^verbatim>\<open>_lev_prep\<close> does the same whatever its own
  \<open>accept_fail\<close>: it calls \<^verbatim>\<open>set_margin_mode\<close> with \<^verbatim>\<open>accept_fail=True\<close>; an
  exception of that call propagates unchanged and ends the function; otherwise it makes
  the set-leverage call with \<^verbatim>\<open>accept_fail=True\<close>, and the outcome of that call, an
  exception included, is its own. Nothing is caught and no other call is made. So when
  the underlying calls swallow their failures under \<^verbatim>\<open>accept_fail=True\<close>, both calls
  are made and \<^verbatim>\<open>_lev_prep\<close> does not raise.
\<close>

theorem lev_prep_accept_fail:
  "lev_prep h self pair leverage side accept_fail s = lev_prep h self pair leverage side True s
   \<and> (trading_mode self \<noteq> SPOT \<longrightarrow>
        fst (lev_prep h self pair leverage side accept_fail s) =
          (case fst (set_margin_mode h pair (margin_mode self) True
                       [(PStr ''leverage'', PFloat leverage)] (world s)) of
             Inl e \<Rightarrow> Inl e
           | Inr u \<Rightarrow>
               fst (set_leverage h leverage pair True
                      (snd (set_margin_mode h pair (margin_mode self) True
                              [(PStr ''leverage'', PFloat leverage)] (world s)))))
        \<and> calls (snd (lev_prep h self pair leverage side accept_fail s)) =
            calls s @
              Set_margin_mode pair (margin_mode self) True [(PStr ''leverage'', PFloat leverage)] #
              (case fst (set_margin_mode h pair (margin_mode self) True
                           [(PStr ''leverage'', PFloat leverage)] (world s)) of
                 Inl e \<Rightarrow> []
               | Inr u \<Rightarrow> [Set_leverage leverage pair True])
        \<and> world (snd (lev_prep h self pair leverage side accept_fail s)) =
            (case fst (set_margin_mode h pair (margin_mode self) True
                         [(PStr ''leverage'', PFloat leverage)] (world s)) of
               Inl e \<Rightarrow>
                 snd (set_margin_mode h pair (margin_mode self) True
                        [(PStr ''leverage'', PFloat leverage)] (world s))
             | Inr u \<Rightarrow>
                 snd (set_leverage h leverage pair True
                        (snd (set_margin_mode h pair (margin_mode self) True
                                [(PStr ''leverage'', PFloat leverage)] (world s))))))
   \<and> (trading_mode self \<noteq> SPOT
        \<and> (\<forall>p m ps w. fst (set_margin_mode h p m True ps w) = Inr ())
        \<and> (\<forall>l p w. fst (set_leverage h l p True w) = Inr ())
      \<longrightarrow> fst (lev_prep h self pair leverage side accept_fail s) = Inr ()
          \<and> calls (snd (lev_prep h self pair leverage side accept_fail s)) =
              calls s @
                [Set_margin_mode pair (margin_mode self) True [(PStr ''leverage'', PFloat leverage)],
                 Set_leverage leverage pair True])"
proof (intro conjI impI)
  show "lev_prep h self pair leverage side accept_fail s = lev_prep h self pair leverage side True s"
    by (simp add: lev_prep_def)
next
  assume "trading_mode self \<noteq> SPOT"
  then show "fst (lev_prep h self pair leverage side accept_fail s) =
          (case fst (set_margin_mode h pair (margin_mode self) True
                       [(PStr ''leverage'', PFloat leverage)] (world s)) of
             Inl e \<Rightarrow> Inl e
           | Inr u \<Rightarrow>
               fst (set_leverage h leverage pair True
                      (snd (set_margin_mode h pair (margin_mode self) True
                              [(PStr ''leverage'', PFloat leverage)] (world s)))))"
    by (simp add: lev_prep_def issue_eq Let_def split: sum.splits)
next
  assume "trading_mode self \<noteq> SPOT"
  then show "calls (snd (lev_prep h self pair leverage side accept_fail s)) =
            calls s @
              Set_margin_mode pair (margin_mode self) True [(PStr ''leverage'', PFloat leverage)] #
              (case fst (set_margin_mode h pair (margin_mode self) True
                           [(PStr ''leverage'', PFloat leverage)] (world s)) of
                 Inl e \<Rightarrow> []
               | Inr u \<Rightarrow> [Set_leverage leverage pair True])"
    by (simp add: lev_prep_def issue_eq Let_def split: sum.splits)
next
  assume "trading_mode self \<noteq> SPOT"
  then show "world (snd (lev_prep h self pair leverage side accept_fail s)) =
            (case fst (set_margin_mode h pair (margin_mode self) True
                         [(PStr ''leverage'', PFloat leverage)] (world s)) of
               Inl e \<Rightarrow>
                 snd (set_margin_mode h pair (margin_mode self) True
                        [(PStr ''leverage'', PFloat leverage)] (world s))
             | Inr u \<Rightarrow>
                 snd (set_leverage h leverage pair True
                        (snd (set_margin_mode h pair (margin_mode self) True
                                [(PStr ''leverage'', PFloat leverage)] (world s)))))"
    by (simp add: lev_prep_def issue_eq Let_def split: sum.splits)
next
  assume a: "trading_mode self \<noteq> SPOT
        \<and> (\<forall>p m ps w. fst (set_margin_mode h p m True ps w) = Inr ())
        \<and> (\<forall>l p w. fst (set_leverage h l p True w) = Inr ())"
  then show "fst (lev_prep h self pair leverage side accept_fail s) = Inr ()"
    by (simp add: lev_prep_def issue_eq Let_def split: sum.splits)
  from a show "calls (snd (lev_prep h self pair leverage side accept_fail s)) =
              calls s @
                [Set_margin_mode pair (margin_mode self) True [(PStr ''leverage'', PFloat leverage)],
                 Set_leverage leverage pair True]"
    by (simp add: lev_prep_def issue_eq Let_def split: sum.splits)
qed

theorem lev_prep_accept_fail_witness:
  "trading_mode \<lparr>trading_mode = FUTURES, margin_mode = Some ISOLATED, config = []\<rparr> \<noteq> SPOT
   \<and> (\<forall>p m ps w. fst (set_margin_mode rejecting_host p m True ps w) = Inr ())
   \<and> (\<forall>l p w. fst (set_leverage rejecting_host l p True w) = Inr ())
   \<and> fst (lev_prep rejecting_host
            \<lparr>trading_mode = FUTURES, margin_mode = Some ISOLATED, config = []\<rparr>
            ''BTC/USDT:USDT'' 3 Buy False \<lparr>calls = [], world = 0\<rparr>)
     = Inr ()
   \<and> calls (snd (lev_prep rejecting_host
            \<lparr>trading_mode = FUTURES, margin_mode = Some ISOLATED, config = []\<rparr>
            ''BTC/USDT:USDT'' 3 Buy False \<lparr>calls = [], world = 0\<rparr>))
     = [Set_margin_mode ''BTC/USDT:USDT'' (Some ISOLATED) True [(PStr ''leverage'', PFloat 3)],
        Set_leverage 3 ''BTC/USDT:USDT'' True]
   \<and> fst (lev_prep limited_host
            \<lparr>trading_mode = FUTURES, margin_mode = Some ISOLATED, config = []\<rparr>
            ''BTC/USDT:USDT'' 3 Buy True \<lparr>calls = [], world = 0\<rparr>)
     = Inl too_many_requests
   \<and> calls (snd (lev_prep limited_host
            \<lparr>trading_mode = FUTURES, margin_mode = Some ISOLATED, config = []\<rparr>
            ''BTC/USDT:USDT'' 3 Buy True \<lparr>calls = [], world = 0\<rparr>))
     = [Set_margin_mode ''BTC/USDT:USDT'' (Some ISOLATED) True [(PStr ''leverage'', PFloat 3)]]"
proof -
  have mode: "trading_mode \<lparr>trading_mode = FUTURES, margin_mode = Some ISOLATED, config = []\<rparr> \<noteq> SPOT"
    by simp
  have mm: "\<forall>p m ps w. fst (set_margin_mode rejecting_host p m True ps w) = Inr ()"
    by (simp add: rejecting_host_def)
  have lv: "\<forall>l p w. fst (set_leverage rejecting_host l p True w) = Inr ()"
    by (simp add: rejecting_host_def)
  note quiet = lev_prep_accept_fail
    [of rejecting_host "\<lparr>trading_mode = FUTURES, margin_mode = Some ISOLATED, config = []\<rparr>"
        "''BTC/USDT:USDT''" 3 Buy False "\<lparr>calls = [], world = 0\<rparr>",
     THEN conjunct2, THEN conjunct2, rule_format, OF conjI [OF mode conjI [OF mm lv]]]
  note loud = lev_prep_accept_fail
    [of limited_host "\<lparr>trading_mode = FUTURES, margin_mode = Some ISOLATED, config = []\<rparr>"
        "''BTC/USDT:USDT''" 3 Buy True "\<lparr>calls = [], world = 0\<rparr>",
     THEN conjunct2, THEN conjunct1, rule_format, OF mode]
  have l1: "fst (lev_prep limited_host
            \<lparr>trading_mode = FUTURES, margin_mode = Some ISOLATED, config = []\<rparr>
            ''BTC/USDT:USDT'' 3 Buy True \<lparr>calls = [], world = 0\<rparr>) = Inl too_many_requests"
    using loud by (simp add: limited_host_def)
  have l2: "calls (snd (lev_prep limited_host
            \<lparr>trading_mode = FUTURES, margin_mode = Some ISOLATED, config = []\<rparr>
            ''BTC/USDT:USDT'' 3 Buy True \<lparr>calls = [], world = 0\<rparr>))
     = [Set_margin_mode ''BTC/USDT:USDT'' (Some ISOLATED) True [(PStr ''leverage'', PFloat 3)]]"
    using loud by (simp add: limited_host_def)
  from mode mm lv quiet l1 l2 show ?thesis by simp
qed

section \<open>Error classification at initialisation\<close>

text \<open>An error that is not a client error matches no clause and propagates as it is.\<close>

lemma init_try_foreign:
  "\<forall>c name msg. e \<noteq> CcxtError c name msg \<Longrightarrow> init_try (Inl e) = Inl e"
  by (cases e) (simp_all add: init_try_def)

text \<open>The hook as written raises only for a configuration without \<^verbatim>\<open>"dry_run"\<close>.\<close>

lemma additional_exchange_init_result:
  "additional_exchange_init self =
     (if dict_get (config self) (PStr ''dry_run'') = None
      then Inl (KeyError (PStr ''dry_run'')) else Inr ())"
  by (simp add: additional_exchange_init_def init_try_body_def init_try_def split: option.splits)

text \<open>
  Claim C6, as stated, fails: an error that no \<^verbatim>\<open>except\<close> clause matches is not
  turned into \<^verbatim>\<open>OperationalException\<close>. The \<^verbatim>\<open>KeyError\<close> of a configuration
  without \<^verbatim>\<open>"dry_run"\<close>, the one error the body of the \<^verbatim>\<open>try\<close> can raise, leaves
  \<^verbatim>\<open>additional_exchange_init\<close> as it is.
\<close>

theorem additional_exchange_init_counterexample:
  "additional_exchange_init \<lparr>trading_mode = FUTURES, margin_mode = Some ISOLATED, config = []\<rparr>
     = Inl (KeyError (PStr ''dry_run''))
   \<and> init_try (Inl (KeyError (PStr ''dry_run''))) = Inl (KeyError (PStr ''dry_run''))"
  by (simp add: additional_exchange_init_def init_try_body_def init_try_def dict_get_def)

text \<open>
  Claim C6, amended. The \<^verbatim>\<open>try\<close> statement of \<^verbatim>\<open>additional_exchange_init\<close>
  reclassifies every client error raised in its body: a \<^verbatim>\<open>DDoSProtection\<close> becomes
  \<^verbatim>\<open>DDosProtection\<close>, an \<^verbatim>\<open>OperationFailed\<close> or \<^verbatim>\<open>ExchangeError\<close> becomes
  \<^verbatim>\<open>TemporaryError\<close> with the message built from the class name and the text of the
  error, and every other client error becomes \<^verbatim>\<open>OperationalException\<close>. An error that
  is not a client error matches no clause and propagates unchanged, and a body that
  returns lets the function return. The body as written makes no client call:
  \<^verbatim>\<open>additional_exchange_init\<close> raises \<^verbatim>\<open>KeyError\<close>, unchanged, for a configuration
  without \<^verbatim>\<open>"dry_run"\<close> and returns otherwise.
\<close>

theorem additional_exchange_init_errors:
  "init_try (Inl (CcxtError c name msg)) =
     Inl (case c of
            DDoSProtection \<Rightarrow> DDosProtection (CcxtError c name msg)
          | OperationFailed \<Rightarrow>
              TemporaryError
                (''Error in additional_exchange_init due to '' @ name @ ''. Message: '' @ msg)
          | ExchangeError \<Rightarrow>
              TemporaryError
                (''Error in additional_exchange_init due to '' @ name @ ''. Message: '' @ msg)
          | BaseError \<Rightarrow> OperationalException (CcxtError c name msg))
   \<and> ((\<forall>c' name' msg'. e \<noteq> CcxtError c' name' msg') \<longrightarrow> init_try (Inl e) = Inl e)
   \<and> init_try (Inr u) = Inr u
   \<and> additional_exchange_init self = init_try (init_try_body self)
   \<and> additional_exchange_init self =
       (if dict_get (config self) (PStr ''dry_run'') = None
        then Inl (KeyError (PStr ''dry_run'')) else Inr ())"
proof (intro conjI impI)
  show "init_try (Inl (CcxtError c name msg)) =
     Inl (case c of
            DDoSProtection \<Rightarrow> DDosProtection (CcxtError c name msg)
          | OperationFailed \<Rightarrow>
              TemporaryError
                (''Error in additional_exchange_init due to '' @ name @ ''. Message: '' @ msg)
          | ExchangeError \<Rightarrow>
              TemporaryError
                (''Error in additional_exchange_init due to '' @ name @ ''. Message: '' @ msg)
          | BaseError \<Rightarrow> OperationalException (CcxtError c name msg))"
    by (cases c) (simp_all add: init_try_def)
next
  assume "\<forall>c' name' msg'. e \<noteq> CcxtError c' name' msg'"
  then show "init_try (Inl e) = Inl e" by (rule init_try_foreign)
next
  show "init_try (Inr u) = Inr u" by (simp add: init_try_def)
next
  show "additional_exchange_init self = init_try (init_try_body self)"
    by (simp add: additional_exchange_init_def)
next
  show "additional_exchange_init self =
       (if dict_get (config self) (PStr ''dry_run'') = None
        then Inl (KeyError (PStr ''dry_run'')) else Inr ())"
    by (rule additional_exchange_init_result)
qed

theorem additional_exchange_init_errors_witness:
  "init_try (Inl (CcxtError ExchangeError ''BadRequest'' ''40019'')) =
     Inl (TemporaryError ''Error in additional_exchange_init due to BadRequest. Message: 40019'')
   \<and> (\<forall>c' name' msg'. KeyError (PStr ''dry_run'') \<noteq> CcxtError c' name' msg')
   \<and> init_try (Inl (KeyError (PStr ''dry_run''))) = Inl (KeyError (PStr ''dry_run''))
   \<and> additional_exchange_init
        \<lparr>trading_mode = FUTURES, margin_mode = Some ISOLATED,
         config = [(PStr ''dry_run'', PBool False)]\<rparr> = Inr ()"
proof -
  note all = additional_exchange_init_errors
    [of ExchangeError "''BadRequest''" "''40019''" "KeyError (PStr ''dry_run'')" "()"
        "\<lparr>trading_mode = FUTURES, margin_mode = Some ISOLATED,
          config = [(PStr ''dry_run'', PBool False)]\<rparr>"]
  have foreign: "\<forall>c' name' msg'. KeyError (PStr ''dry_run'') \<noteq> CcxtError c' name' msg'"
    by simp
  have a: "init_try (Inl (CcxtError ExchangeError ''BadRequest'' ''40019'')) =
     Inl (TemporaryError ''Error in additional_exchange_init due to BadRequest. Message: 40019'')"
    using all [THEN conjunct1] by simp
  have b: "init_try (Inl (KeyError (PStr ''dry_run''))) = Inl (KeyError (PStr ''dry_run''))"
    using all [THEN conjunct2, THEN conjunct1] foreign by blast
  have c: "additional_exchange_init
        \<lparr>trading_mode = FUTURES, margin_mode = Some ISOLATED,
         config = [(PStr ''dry_run'', PBool False)]\<rparr> = Inr ()"
    using all [THEN conjunct2, THEN conjunct2, THEN conjunct2, THEN conjunct2]
    by (simp add: dict_get_def)
  from a foreign b c show ?thesis by blast
qed


section \<open>Merged capability table\<close>

text \<open>
  Claim C5. For every feature and every trading mode, the merged table yields the value
  of the futures table when the mode is futures and the futures table has the feature, and
  the value of the base table otherwise. Merging the base table \<^verbatim>\<open>{"a":1,"b":2}\<close> with
  the futures table \<^verbatim>\<open>{"b":3}\<close> gives 1 for \<^verbatim>\<open>a\<close> and 3 for \<^verbatim>\<open>b\<close> in futures mode,
  and 2 for \<^verbatim>\<open>b\<close> in spot mode.
\<close>

theorem merged_ft_has_get:
  assumes "dict_ok futures"
  shows "capability_get (merged_ft_has mode base futures) k =
           (if mode = FUTURES \<and> dict_get futures k \<noteq> None
            then capability_get futures k else capability_get base k)
     \<and> capability_get
          (merged_ft_has FUTURES [(PStr ''a'', PInt 1), (PStr ''b'', PInt 2)] [(PStr ''b'', PInt 3)])
          (PStr ''a'') = Inr (PInt 1)
     \<and> capability_get
          (merged_ft_has FUTURES [(PStr ''a'', PInt 1), (PStr ''b'', PInt 2)] [(PStr ''b'', PInt 3)])
          (PStr ''b'') = Inr (PInt 3)
     \<and> capability_get
          (merged_ft_has SPOT [(PStr ''a'', PInt 1), (PStr ''b'', PInt 2)] [(PStr ''b'', PInt 3)])
          (PStr ''b'') = Inr (PInt 2)"
proof (intro conjI)
  show "capability_get (merged_ft_has mode base futures) k =
           (if mode = FUTURES \<and> dict_get futures k \<noteq> None
            then capability_get futures k else capability_get base k)"
    using assms
    by (auto simp: capability_get_def merged_ft_has_def dict_get_update split: option.splits)
qed (simp_all add: capability_get_def merged_ft_has_def dict_get_def)

theorem merged_ft_has_get_witness:
  "dict_ok ft_has_futures
   \<and> capability_get (merged_ft_has FUTURES ft_has ft_has_futures) (PStr ''stoploss_on_exchange'')
       = Inr (PBool True)
   \<and> capability_get (merged_ft_has FUTURES ft_has ft_has_futures) (PStr ''ws_enabled'')
       = Inr (PBool True)
   \<and> capability_get (merged_ft_has SPOT ft_has ft_has_futures) (PStr ''stoploss_on_exchange'')
       = Inl (UnsupportedFeature (PStr ''stoploss_on_exchange''))"
proof -
  have ok: "dict_ok ft_has_futures"
    by (simp add: dict_ok_def ft_has_futures_def)
  show ?thesis
    using ok
      merged_ft_has_get [OF ok, of FUTURES ft_has "PStr ''stoploss_on_exchange''"]
      merged_ft_has_get [OF ok, of FUTURES ft_has "PStr ''ws_enabled''"]
      merged_ft_has_get [OF ok, of SPOT ft_has "PStr ''stoploss_on_exchange''"]
    by (simp add: capability_get_def dict_get_def ft_has_def ft_has_futures_def)
qed

section \<open>Bounded retry\<close>

lemma attempt_loop_exhausts:
  assumes "\<forall>w. \<exists>e w'. f w = (Inl e, w') \<and> retryable e"
  shows "\<exists>e. retryable e \<and>
           attempt_loop n f made w =
             (FatalFailure e, Suc (made + n), ((\<lambda>w. snd (f w)) ^^ Suc n) w)"
proof (induction n arbitrary: made w)
  case 0
  from assms obtain e w' where "f w = (Inl e, w')" "retryable e" by blast
  then show ?case by (auto simp: classify_def)
next
  case (Suc n)
  from assms obtain e w' where fw: "f w = (Inl e, w')" "retryable e" by blast
  have step: "((\<lambda>w. snd (f w)) ^^ Suc (Suc n)) w = ((\<lambda>w. snd (f w)) ^^ Suc n) w'"
    using fw(1) by (simp only: funpow_Suc_right o_apply snd_conv)
  from Suc.IH [of "Suc made" w'] obtain e' where
    "retryable e'"
    "attempt_loop n f (Suc made) w' =
       (FatalFailure e', Suc (Suc made + n), ((\<lambda>w. snd (f w)) ^^ Suc n) w')"
    by blast
  with fw show ?case
    unfolding step by (auto simp: classify_def simp del: funpow.simps)
qed

text \<open>
  Claim C8. When every attempt of a wrapped call fails with a retryable error, the
  wrapper with a positive maximum attempt count makes exactly that many attempts (the
  call has acted on the world that many times) and ends in a fatal failure carrying a
  retryable error. With a maximum of 3 and a call that is rate limited every time, 3
  attempts are made and the outcome is fatal.
\<close>

theorem retrier_exhausts:
  assumes "0 < max_attempts"
    and "\<forall>w. \<exists>e w'. f w = (Inl e, w') \<and> retryable e"
  shows "\<exists>e. retryable e \<and>
           retrier max_attempts f w =
             (FatalFailure e, max_attempts, ((\<lambda>w. snd (f w)) ^^ max_attempts) w)"
proof -
  from assms(1) obtain n where n: "max_attempts = Suc n" by (cases max_attempts) auto
  from attempt_loop_exhausts [OF assms(2), of n 0 w] show ?thesis
    unfolding retrier_def n by simp
qed

theorem retrier_exhausts_witness:
  "(0::nat) < 3
   \<and> (\<forall>w. \<exists>e w'. rate_limited w = (Inl e, w') \<and> retryable e)
   \<and> retrier 3 rate_limited 0 = (FatalFailure too_many_requests, 3, 3)"
proof -
  have pos: "(0::nat) < 3" by simp
  have always: "\<forall>w. \<exists>e w'. rate_limited w = (Inl e, w') \<and> retryable e"
    by (simp add: rate_limited_def too_many_requests_def)
  have run: "retrier 3 rate_limited 0 = (FatalFailure too_many_requests, 3, 3)"
    by (simp add: retrier_def rate_limited_def too_many_requests_def classify_def numeral_2_eq_2)
  show ?thesis
    using pos always run retrier_exhausts [OF pos always, of 0] by simp
qed

text \<open>The wrapped initialisation hook never fails with a retryable error, so it is
  attempted once.\<close>

lemma retrier_additional_exchange_init:
  "\<exists>out. retrier max_attempts (\<lambda>w. (additional_exchange_init self, w)) w = (out, 1, w)
         \<and> (\<forall>e. out \<noteq> RetryableFailure e)"
  by (cases "max_attempts - 1")
    (auto simp: retrier_def additional_exchange_init_result classify_def)

end
